theory Spec2Isabelle
  imports Complex_Main
begin

section \<open>Data model\<close>

text \<open>
  The program under study is \<^verbatim>\<open>src/utils/cannyLaneDetector.py\<close>: a kernel builder
  (\<^verbatim>\<open>helperFunction.createGaussianKernel\<close>) and two stages of a Canny detector
  (\<^verbatim>\<open>cannyLaneDetector.rgbToGrayScratch\<close>, \<^verbatim>\<open>cannyLaneDetector.applyGaussianBlurScratch\<close>).

  Conventions of the embedding.
  \<^item> A NumPy array is a record of its shape and of its elements in row-major order.
  \<^item> Arrays are objects: they live in a heap (a list of arrays, an address is an index),
    a method takes the heap and returns the heap it leaves behind. A newly created
    array gets the next free address. Temporaries that never get a name that
    escapes the method are computed as values and get no address.
  \<^item> An exception is a value \<open>Inl e\<close> of the result.
  \<^item> Python floats and float64 elements are real numbers and their arithmetic is
    exact; rounding, overflow, infinities and NaN are outside the model. The
    narrowing cast to float32 is a parameter \<open>f32\<close> of the functions that cast.
\<close>

datatype error =
    TypeError string
  | ValueError string
  | IndexError
  | ZeroDivisionError

record ndarray =
  shape :: "nat list"
  data :: "real list"

definition ndim :: "ndarray \<Rightarrow> nat" where
  "ndim a = length (shape a)"

type_synonym ref = nat
type_synonym heap = "ndarray list"

definition alloc :: "ndarray \<Rightarrow> heap \<Rightarrow> ref \<times> heap" where
  "alloc a h = (length h, h @ [a])"

subsection \<open>The NumPy operations the source calls\<close>

text \<open>\<^verbatim>\<open>np.zeros(dims)\<close>: NumPy refuses a negative dimension with a ValueError.\<close>

definition np_zeros :: "int list \<Rightarrow> error + ndarray" where
  "np_zeros dims =
     (if list_ex (\<lambda>d. d < 0) dims then Inl (ValueError ''negative dimensions are not allowed'')
      else Inr \<lparr>shape = map nat dims, data = replicate (prod_list (map nat dims)) 0\<rparr>)"

text \<open>\<^verbatim>\<open>a[y, x] = v\<close> on a two-dimensional array, with NumPy's bounds check.\<close>

definition setitem2 :: "ndarray \<Rightarrow> nat \<Rightarrow> nat \<Rightarrow> real \<Rightarrow> error + ndarray" where
  "setitem2 a y x v =
     (if y < shape a ! 0 \<and> x < shape a ! 1
      then Inr (a\<lparr>data := (data a)[y * (shape a ! 1) + x := v]\<rparr>)
      else Inl IndexError)"


definition np_sum :: "ndarray \<Rightarrow> real" where
  "np_sum a = sum_list (data a)"

text \<open>\<^verbatim>\<open>a /= s\<close>: every element divided by the scalar, in place.\<close>

definition idiv :: "ndarray \<Rightarrow> real \<Rightarrow> ndarray" where
  "idiv a s = a\<lparr>data := map (\<lambda>v. v / s) (data a)\<rparr>"

subsection \<open>Loops\<close>

text \<open>
  \<^verbatim>\<open>for i in range(n): body\<close> over the heap: the body runs for each index in turn
  and the loop stops at the first exception.
\<close>

fun forRange :: "nat list \<Rightarrow> (nat \<Rightarrow> heap \<Rightarrow> error option \<times> heap) \<Rightarrow> heap \<Rightarrow> error option \<times> heap" where
  "forRange [] body h = (None, h)"
| "forRange (i # is) body h =
     (case body i h of
        (Some e, h') \<Rightarrow> (Some e, h')
      | (None, h') \<Rightarrow> forRange is body h')"

section \<open>helperFunction.createGaussianKernel\<close>

text \<open>
  The right-hand side of the assignment in the inner loop,
  \<^verbatim>\<open>(1 / (2 * np.pi * sigma ** 2)) * np.exp(-(dx ** 2 + dy ** 2) / (2 * sigma ** 2))\<close>.
  Both divisions are divisions of Python floats, which raise ZeroDivisionError on a
  zero divisor.
\<close>

definition gaussianValue :: "real \<Rightarrow> int \<Rightarrow> int \<Rightarrow> error + real" where
  "gaussianValue sigma dx dy =
     (if 2 * pi * sigma ^ 2 = 0 then Inl ZeroDivisionError
      else if 2 * sigma ^ 2 = 0 then Inl ZeroDivisionError
      else Inr ((1 / (2 * pi * sigma ^ 2)) * exp (- real_of_int (dx ^ 2 + dy ^ 2) / (2 * sigma ^ 2))))"

text \<open>The body of the inner loop: compute the value, store it at \<^verbatim>\<open>kernel[y, x]\<close>.\<close>

definition kernelCell :: "real \<Rightarrow> ref \<Rightarrow> int \<Rightarrow> nat \<Rightarrow> nat \<Rightarrow> heap \<Rightarrow> error option \<times> heap" where
  "kernelCell sigma kern center y x h =
     (let dx = int x - center;
          dy = int y - center
      in case gaussianValue sigma dx dy of
           Inl e \<Rightarrow> (Some e, h)
         | Inr v \<Rightarrow>
             (case setitem2 (h ! kern) y x v of
                Inl e \<Rightarrow> (Some e, h)
              | Inr a \<Rightarrow> (None, h[kern := a])))"

text \<open>The two nested loops over \<^verbatim>\<open>range(kernel_size)\<close>.\<close>

definition fillKernel :: "real \<Rightarrow> ref \<Rightarrow> nat \<Rightarrow> int \<Rightarrow> heap \<Rightarrow> error option \<times> heap" where
  "fillKernel sigma kern kernel_size center h =
     forRange [0..<kernel_size]
       (\<lambda>y. forRange [0..<kernel_size] (kernelCell sigma kern center y)) h"

text \<open>
  Lines 37 to 47 of the method: the side length, the array of zeros, the centre and the
  loops. \<open>kern\<close> is the address of the source's \<^verbatim>\<open>kernel\<close>.
  \<^verbatim>\<open>2 * np.ceil(sigma) + 1\<close> is a whole number, so \<^verbatim>\<open>int\<close> of it is exact.
\<close>

definition unnormalizedKernel :: "real \<Rightarrow> heap \<Rightarrow> (error + ref) \<times> heap" where
  "unnormalizedKernel sigma h =
     (let kernel_size = 2 * \<lceil>sigma\<rceil> + 1
      in case np_zeros [kernel_size, kernel_size] of
           Inl e \<Rightarrow> (Inl e, h)
         | Inr z \<Rightarrow>
             (let (kern, h1) = alloc z h;
                  center = kernel_size div 2
              in case fillKernel sigma kern (nat kernel_size) center h1 of
                   (Some e, h2) \<Rightarrow> (Inl e, h2)
                 | (None, h2) \<Rightarrow> (Inr kern, h2)))"

text \<open>
  The method: the above, then lines 49 and 50. \<^verbatim>\<open>kernel /= np.sum(kernel)\<close> is a
  NumPy division, which raises nothing; the sum is positive whenever that line is
  reached (lemma \<open>gaussTable_sum_pos\<close>).
\<close>

definition createGaussianKernel :: "real \<Rightarrow> heap \<Rightarrow> (error + ref) \<times> heap" where
  "createGaussianKernel sigma h =
     (case unnormalizedKernel sigma h of
        (Inl e, h2) \<Rightarrow> (Inl e, h2)
      | (Inr kern, h2) \<Rightarrow> (Inr kern, h2[kern := idiv (h2 ! kern) (np_sum (h2 ! kern))]))"

text \<open>
  Three abbreviations for the properties below: the side length the method computes,
  the value \<open>gaussianValue\<close> returns when no division fails, and the row-major table
  of these values for a \<open>k\<close> by \<open>k\<close> kernel with centre \<open>c\<close> (entry \<open>i\<close> is row
  \<open>i div k\<close>, column \<open>i mod k\<close>).
\<close>

definition kernelSide :: "real \<Rightarrow> nat" where
  "kernelSide sigma = nat (2 * \<lceil>sigma\<rceil> + 1)"

definition gauss :: "real \<Rightarrow> int \<Rightarrow> int \<Rightarrow> real" where
  "gauss sigma dx dy = (1 / (2 * pi * sigma ^ 2)) * exp (- real_of_int (dx ^ 2 + dy ^ 2) / (2 * sigma ^ 2))"

definition gaussTable :: "real \<Rightarrow> nat \<Rightarrow> int \<Rightarrow> real list" where
  "gaussTable sigma k c = map (\<lambda>i. gauss sigma (int (i mod k) - c) (int (i div k) - c)) [0..<k * k]"


section \<open>cannyLaneDetector\<close>

text \<open>
  The attributes set by \<^verbatim>\<open>__init__\<close>. The fourth one, \<^verbatim>\<open>utils\<close>, is a
  \<^verbatim>\<open>helperFunction\<close>, an object without attributes: a call \<^verbatim>\<open>self.utils.f(x)\<close> is
  the call of \<open>f\<close>.
\<close>

record cannyLaneDetector =
  gradThresh :: real
  firstThresh :: real
  secondThresh :: real

subsection \<open>What rgbToGrayScratch can be given\<close>

text \<open>
  The method tests its argument with \<^verbatim>\<open>isinstance\<close>: a Python list (here of numbers
  and lists, nested at will), an array, or anything else.
\<close>

datatype pylist = Num real | List "pylist list"

datatype pyobj = ListObj "pylist list" | ArrayObj ref | OtherObj

text \<open>
  \<^verbatim>\<open>np.array(img)\<close> on nested lists: the elements of a list must all convert to
  arrays of one shape, otherwise NumPy raises a ValueError (its message names the
  depth; the model keeps a fixed text).
\<close>

fun np_array :: "pylist \<Rightarrow> error + ndarray" where
  "np_array (Num v) = Inr \<lparr>shape = [], data = [v]\<rparr>"
| "np_array (List xs) =
     (let rs = map np_array xs
      in if list_ex isl rs then Inl (ValueError ''inhomogeneous shape'')
         else
           (let as = map projr rs
            in if as = [] then Inr \<lparr>shape = [0], data = []\<rparr>
               else if list_all (\<lambda>a. shape a = shape (hd as)) as
               then Inr \<lparr>shape = length as # shape (hd as), data = concat (map data as)\<rparr>
               else Inl (ValueError ''inhomogeneous shape'')))"

text \<open>\<^verbatim>\<open>img[:, :, c]\<close> on a three-dimensional array, with NumPy's bounds check.\<close>

definition channel :: "ndarray \<Rightarrow> nat \<Rightarrow> error + ndarray" where
  "channel a c =
     (if c < shape a ! 2
      then Inr \<lparr>shape = [shape a ! 0, shape a ! 1],
                data = map (\<lambda>i. data a ! (i * (shape a ! 2) + c)) [0..<shape a ! 0 * shape a ! 1]\<rparr>
      else Inl IndexError)"

text \<open>\<^verbatim>\<open>c * a\<close> and \<^verbatim>\<open>a + b\<close> on arrays of one shape, \<^verbatim>\<open>a.astype(np.float32)\<close>.\<close>

definition scale :: "real \<Rightarrow> ndarray \<Rightarrow> ndarray" where
  "scale c a = a\<lparr>data := map (\<lambda>v. c * v) (data a)\<rparr>"

definition add_arrays :: "ndarray \<Rightarrow> ndarray \<Rightarrow> ndarray" where
  "add_arrays a b = a\<lparr>data := map (\<lambda>(v, w). v + w) (zip (data a) (data b))\<rparr>"

definition astype :: "(real \<Rightarrow> real) \<Rightarrow> ndarray \<Rightarrow> ndarray" where
  "astype f32 a = a\<lparr>data := map f32 (data a)\<rparr>"

subsection \<open>rgbToGrayScratch\<close>

text \<open>
  Lines 139 to 149 of the source, on the array at address \<open>img\<close>. The third slice
  reads channel index 3, as the source does.
\<close>

definition grayOfArray :: "(real \<Rightarrow> real) \<Rightarrow> ref \<Rightarrow> heap \<Rightarrow> (error + ref) \<times> heap" where
  "grayOfArray f32 img h =
     (if ndim (h ! img) = 3 then
        (case channel (h ! img) 0 of
           Inl e \<Rightarrow> (Inl e, h)
         | Inr r \<Rightarrow>
             (case channel (h ! img) 1 of
                Inl e \<Rightarrow> (Inl e, h)
              | Inr g \<Rightarrow>
                  (case channel (h ! img) 3 of
                     Inl e \<Rightarrow> (Inl e, h)
                   | Inr b \<Rightarrow>
                       (let imgGray = add_arrays (add_arrays (scale 0.2989 r) (scale 0.5870 g)) (scale 0.1140 b);
                            (res, h') = alloc (astype f32 imgGray) h
                        in (Inr res, h')))))
      else if ndim (h ! img) = 2 then
        (let (res, h') = alloc (astype f32 (h ! img)) h in (Inr res, h'))
      else (Inl (ValueError ''Input image must be either a 2D grayscale imaege or a 3D RGB image.''), h))"

text \<open>The method: lines 131 to 137, then the above.\<close>

definition rgbToGrayScratch :: "(real \<Rightarrow> real) \<Rightarrow> cannyLaneDetector \<Rightarrow> pyobj \<Rightarrow> heap \<Rightarrow> (error + ref) \<times> heap" where
  "rgbToGrayScratch f32 self img h =
     (case img of
        ListObj xs \<Rightarrow>
          (case np_array (List xs) of
             Inl e \<Rightarrow> (Inl e, h)
           | Inr a \<Rightarrow> (let (img', h') = alloc a h in grayOfArray f32 img' h'))
      | ArrayObj r \<Rightarrow> grayOfArray f32 r h
      | OtherObj \<Rightarrow>
          (Inl (TypeError ''Input must be a Numpy array or a list convertible to a Numpy array.''), h))"

subsection \<open>applyGaussianBlurScratch\<close>

definition applyGaussianBlurScratch :: "cannyLaneDetector \<Rightarrow> ref \<Rightarrow> real \<Rightarrow> heap \<Rightarrow> (error + ref) \<times> heap" where
  "applyGaussianBlurScratch self img sigma h =
     (if ndim (h ! img) \<noteq> 2
      then (Inl (ValueError ''Input image must be a grayscale image. Nothing else.''), h)
      else (let (kern, h') = createGaussianKernel sigma h in (kern, h')))"

section \<open>Properties of the kernel builder\<close>

subsection \<open>The loops\<close>

lemma gaussianValue_nonzero: "sigma \<noteq> 0 \<Longrightarrow> gaussianValue sigma dx dy = Inr (gauss sigma dx dy)"
  by (simp add: gaussianValue_def gauss_def)



lemma forRange_append:
  "forRange (xs @ ys) body h =
     (case forRange xs body h of (Some e, h') \<Rightarrow> (Some e, h') | (None, h') \<Rightarrow> forRange ys body h')"
  by (induction xs arbitrary: h) (auto split: prod.splits option.splits)

lemma forRange_Suc:
  "forRange [0..<Suc n] body h =
     (case forRange [0..<n] body h of (Some e, h') \<Rightarrow> (Some e, h') | (None, h') \<Rightarrow> body n h')"
  unfolding upt_Suc_append[OF le0] forRange_append
  by (simp split: prod.splits option.splits)

lemma kernelCell_ok:
  assumes "sigma \<noteq> 0" "kern < length h" "shape (h ! kern) = [k, k]" "y < k" "x < k"
  shows "kernelCell sigma kern c y x h =
           (None, h[kern := (h ! kern)\<lparr>data := (data (h ! kern))[y * k + x := gauss sigma (int x - c) (int y - c)]\<rparr>])"
  using assms by (simp add: kernelCell_def gaussianValue_nonzero setitem2_def)

lemma row_ok:
  assumes "sigma \<noteq> 0" "kern < length h" "shape (h ! kern) = [k, k]"
    "length (data (h ! kern)) = k * k" "y < k" "n \<le> k"
  shows "forRange [0..<n] (kernelCell sigma kern c y) h =
           (None, h[kern := \<lparr>shape = [k, k],
                             data = map (\<lambda>i. if y * k \<le> i \<and> i < y * k + n
                                              then gauss sigma (int (i - y * k) - c) (int y - c)
                                              else data (h ! kern) ! i) [0..<k * k]\<rparr>])"
  using assms(6)
proof (induction n)
  case 0
  have "map (\<lambda>i. data (h ! kern) ! i) [0..<k * k] = data (h ! kern)"
    using assms(4) by (metis map_nth)
  then have "\<lparr>shape = [k, k], data = map (\<lambda>i. data (h ! kern) ! i) [0..<k * k]\<rparr> = h ! kern"
    using assms(3) by simp
  moreover have "(\<lambda>i. if y * k \<le> i \<and> i < y * k + 0
                   then gauss sigma (int (i - y * k) - c) (int y - c)
                   else data (h ! kern) ! i) = (\<lambda>i. data (h ! kern) ! i)"
    by auto
  ultimately show ?case by (simp del: add_0_right add.right_neutral)
next
  case (Suc n)
  let ?d = "data (h ! kern)"
  let ?f = "\<lambda>n i. if y * k \<le> i \<and> i < y * k + n
                   then gauss sigma (int (i - y * k) - c) (int y - c) else ?d ! i"
  let ?h' = "h[kern := \<lparr>shape = [k, k], data = map (?f n) [0..<k * k]\<rparr>]"
  have n: "n < k" "n \<le> k" using Suc.prems by simp_all
  have in_range: "y * k + n < k * k"
  proof -
    have "y * k + n < y * k + k" using n by simp
    also have "\<dots> = (Suc y) * k" by simp
    also have "\<dots> \<le> k * k" using assms(5) by (metis Suc_leI mult_le_mono1)
    finally show ?thesis .
  qed
  have upd: "(map (?f n) [0..<k * k])[y * k + n := gauss sigma (int n - c) (int y - c)]
              = map (?f (Suc n)) [0..<k * k]"
    using in_range by (auto simp: list_eq_iff_nth_eq nth_list_update)
  have "forRange [0..<Suc n] (kernelCell sigma kern c y) h = kernelCell sigma kern c y n ?h'"
    unfolding forRange_Suc Suc.IH[OF n(2)] by simp
  also have "\<dots> = (None, ?h'[kern := (?h' ! kern)\<lparr>data := (data (?h' ! kern))[y * k + n := gauss sigma (int n - c) (int y - c)]\<rparr>])"
    using assms n by (intro kernelCell_ok) simp_all
  also have "\<dots> = (None, h[kern := \<lparr>shape = [k, k], data = map (?f (Suc n)) [0..<k * k]\<rparr>])"
    using assms(2) upd by simp
  finally show ?case .
qed

lemma row_index:
  fixes m k i :: nat
  assumes "m * k \<le> i" "i < m * k + k"
  shows "i div k = m" "i mod k = i - m * k"
proof -
  define j where "j = i - m * k"
  have j: "i = m * k + j" "j < k"
    using assms by (simp_all add: j_def)
  show "i div k = m" using j by simp
  show "i mod k = i - m * k" using j by simp
qed

lemma rows_ok:
  assumes "sigma \<noteq> 0" "kern < length h" "shape (h ! kern) = [k, k]"
    "length (data (h ! kern)) = k * k" "m \<le> k"
  shows "forRange [0..<m] (\<lambda>y. forRange [0..<k] (kernelCell sigma kern c y)) h =
           (None, h[kern := \<lparr>shape = [k, k],
                             data = map (\<lambda>i. if i < m * k
                                              then gauss sigma (int (i mod k) - c) (int (i div k) - c)
                                              else data (h ! kern) ! i) [0..<k * k]\<rparr>])"
  using assms(5)
proof (induction m)
  case 0
  have "map (\<lambda>i. data (h ! kern) ! i) [0..<k * k] = data (h ! kern)"
    using assms(4) by (metis map_nth)
  then have "\<lparr>shape = [k, k], data = map (\<lambda>i. data (h ! kern) ! i) [0..<k * k]\<rparr> = h ! kern"
    using assms(3) by simp
  then show ?case by simp
next
  case (Suc m)
  define d where "d = data (h ! kern)"
  define f where "f = (\<lambda>m i. if i < m * k then gauss sigma (int (i mod k) - c) (int (i div k) - c) else d ! i)"
  define h' where "h' = h[kern := \<lparr>shape = [k, k], data = map (f m) [0..<k * k]\<rparr>]"
  have m: "m < k" "m \<le> k" using Suc.prems by simp_all
  have h'k: "h' ! kern = \<lparr>shape = [k, k], data = map (f m) [0..<k * k]\<rparr>"
    using assms(2) by (simp add: h'_def)
  have step: "map (\<lambda>i. if m * k \<le> i \<and> i < m * k + k
                        then gauss sigma (int (i - m * k) - c) (int m - c)
                        else data (h' ! kern) ! i) [0..<k * k]
              = map (f (Suc m)) [0..<k * k]"
  proof (rule map_cong[OF refl])
    fix i assume "i \<in> set [0..<k * k]"
    then have i: "i < k * k" by simp
    then have di: "data (h' ! kern) ! i = f m i" by (simp add: h'k)
    show "(if m * k \<le> i \<and> i < m * k + k
           then gauss sigma (int (i - m * k) - c) (int m - c)
           else data (h' ! kern) ! i) = f (Suc m) i"
    proof (cases "m * k \<le> i \<and> i < m * k + k")
      case True
      then have "i div k = m" "i mod k = i - m * k" "i < Suc m * k"
        using row_index[of m k i] by simp_all
      then show ?thesis using True by (simp add: f_def)
    next
      case False
      then consider "i < m * k" | "m * k + k \<le> i" by linarith
      then show ?thesis
      proof cases
        case 1
        then have "i < Suc m * k" by simp
        then show ?thesis using 1 False di by (simp add: f_def)
      next
        case 2
        then have "\<not> i < Suc m * k" "\<not> i < m * k" by simp_all
        then show ?thesis using False di by (simp add: f_def)
      qed
    qed
  qed
  have IH: "forRange [0..<m] (\<lambda>y. forRange [0..<k] (kernelCell sigma kern c y)) h = (None, h')"
    unfolding h'_def f_def d_def by (rule Suc.IH[OF m(2)])
  have "forRange [0..<Suc m] (\<lambda>y. forRange [0..<k] (kernelCell sigma kern c y)) h
          = forRange [0..<k] (kernelCell sigma kern c m) h'"
    unfolding forRange_Suc IH by simp
  also have "\<dots> = (None, h'[kern := \<lparr>shape = [k, k],
                       data = map (\<lambda>i. if m * k \<le> i \<and> i < m * k + k
                                        then gauss sigma (int (i - m * k) - c) (int m - c)
                                        else data (h' ! kern) ! i) [0..<k * k]\<rparr>])"
  proof (rule row_ok)
    show "sigma \<noteq> 0" by fact
    show "kern < length h'" using assms(2) by (simp add: h'_def)
    show "shape (h' ! kern) = [k, k]" by (simp add: h'k)
    show "length (data (h' ! kern)) = k * k" by (simp add: h'k)
    show "m < k" by fact
    show "k \<le> k" by simp
  qed
  also have "\<dots> = (None, h[kern := \<lparr>shape = [k, k], data = map (f (Suc m)) [0..<k * k]\<rparr>])"
    unfolding step by (simp only: h'_def list_update_overwrite)
  finally show ?case unfolding f_def d_def .
qed

lemma fillKernel_ok:
  assumes "sigma \<noteq> 0" "kern < length h" "shape (h ! kern) = [k, k]"
    "length (data (h ! kern)) = k * k"
  shows "fillKernel sigma kern k c h = (None, h[kern := \<lparr>shape = [k, k], data = gaussTable sigma k c\<rparr>])"
proof -
  have "map (\<lambda>i. if i < k * k then gauss sigma (int (i mod k) - c) (int (i div k) - c)
                  else data (h ! kern) ! i) [0..<k * k] = gaussTable sigma k c"
    unfolding gaussTable_def by (rule map_cong[OF refl]) simp
  then show ?thesis
    unfolding fillKernel_def using rows_ok[OF assms le_refl, of c] by simp
qed




subsection \<open>What the method returns\<close>


lemma kernel_size_pos:
  fixes sigma :: real
  assumes "- 1 < sigma"
  shows "0 \<le> \<lceil>sigma\<rceil>" "0 < 2 * \<lceil>sigma\<rceil> + 1" "(2 * \<lceil>sigma\<rceil> + 1) div 2 = \<lceil>sigma\<rceil>"
proof -
  show "0 \<le> \<lceil>sigma\<rceil>" using assms by linarith
  then show "0 < 2 * \<lceil>sigma\<rceil> + 1" by simp
  show "(2 * \<lceil>sigma\<rceil> + 1) div 2 = \<lceil>sigma\<rceil>" by simp
qed



lemma unnormalizedKernel_ok:
  assumes "- 1 < sigma" "sigma \<noteq> 0"
  shows "unnormalizedKernel sigma h =
           (Inr (length h),
            h @ [\<lparr>shape = [kernelSide sigma, kernelSide sigma],
                  data = gaussTable sigma (kernelSide sigma) \<lceil>sigma\<rceil>\<rparr>])"
proof -
  let ?k = "kernelSide sigma"
  let ?z = "\<lparr>shape = [?k, ?k], data = replicate (?k * ?k) 0\<rparr>"
  have "\<not> 2 * \<lceil>sigma\<rceil> + 1 < 0"
    using kernel_size_pos(2)[OF assms(1)] by linarith
  then have z: "np_zeros [2 * \<lceil>sigma\<rceil> + 1, 2 * \<lceil>sigma\<rceil> + 1] = Inr ?z"
    by (simp add: np_zeros_def kernelSide_def)
  have fill: "fillKernel sigma (length h) ?k \<lceil>sigma\<rceil> (h @ [?z])
                = (None, (h @ [?z])[length h := \<lparr>shape = [?k, ?k], data = gaussTable sigma ?k \<lceil>sigma\<rceil>\<rparr>])"
    using assms(2) by (intro fillKernel_ok) simp_all
  show ?thesis
    unfolding unnormalizedKernel_def Let_def z
    using fill kernel_size_pos(3)[OF assms(1)]
    by (simp add: alloc_def kernelSide_def)
qed



lemma createGaussianKernel_ok:
  assumes "- 1 < sigma" "sigma \<noteq> 0"
  shows "createGaussianKernel sigma h =
           (Inr (length h),
            h @ [\<lparr>shape = [kernelSide sigma, kernelSide sigma],
                  data = map (\<lambda>v. v / sum_list (gaussTable sigma (kernelSide sigma) \<lceil>sigma\<rceil>))
                             (gaussTable sigma (kernelSide sigma) \<lceil>sigma\<rceil>)\<rparr>])"
  by (simp add: createGaussianKernel_def unnormalizedKernel_ok[OF assms] idiv_def np_sum_def)





subsection \<open>Claims about the kernel builder\<close>










section \<open>Properties of the grayscale converter\<close>

lemma grayOfArray_2d:
  "ndim (h ! img) = 2 \<Longrightarrow>
     grayOfArray f32 img h = (Inr (length h), h @ [\<lparr>shape = shape (h ! img), data = map f32 (data (h ! img))\<rparr>])"
  by (simp add: grayOfArray_def alloc_def astype_def)

text \<open>
  Claim C1. The converter is to compute \<open>0.2989 R + 0.5870 G + 0.1140 B\<close> with R, G, B
  from channel indices 0, 1 and 2. The source slices index 3 for B. On a 1 by 1 image
  with the three channels 10, 20, 30 the slice is out of bounds and the method raises
  IndexError; on a 1 by 1 image with four channels 10, 20, 30, 40 it returns, with the
  fourth channel (40) in the place of the third (30).
\<close>

theorem rgbToGrayScratch_channel_index_3:
  "rgbToGrayScratch f32 self (ArrayObj 0) [\<lparr>shape = [1, 1, 3], data = [10, 20, 30]\<rparr>]
     = (Inl IndexError, [\<lparr>shape = [1, 1, 3], data = [10, 20, 30]\<rparr>])
   \<and> rgbToGrayScratch f32 self (ArrayObj 0) [\<lparr>shape = [1, 1, 4], data = [10, 20, 30, 40]\<rparr>]
     = (Inr 1, [\<lparr>shape = [1, 1, 4], data = [10, 20, 30, 40]\<rparr>,
                \<lparr>shape = [1, 1], data = [f32 (0.2989 * 10 + 0.5870 * 20 + 0.1140 * 40)]\<rparr>])"
  by (simp add: rgbToGrayScratch_def grayOfArray_def ndim_def channel_def alloc_def astype_def
      add_arrays_def scale_def)

text \<open>
  Claim C3. The claim is that a three-dimensional input with exactly 3 channels is
  converted and any other channel count is refused. Because the source slices channel
  index 3, a 2 by 1 image with 3 channels raises IndexError, and a 1 by 1 image with
  5 channels is converted.
\<close>

theorem rgbToGrayScratch_three_channels_fail:
  "fst (rgbToGrayScratch f32 self (ArrayObj 0) [\<lparr>shape = [2, 1, 3], data = [1, 2, 3, 4, 5, 6]\<rparr>])
     = Inl IndexError
   \<and> fst (rgbToGrayScratch f32 self (ArrayObj 0) [\<lparr>shape = [1, 1, 5], data = [1, 2, 3, 4, 5]\<rparr>])
     = Inr 1"
  by (simp add: rgbToGrayScratch_def grayOfArray_def ndim_def channel_def alloc_def)

text \<open>
  Claim C7. The claim is that a uniform image with R = G = B = \<open>v\<close> is converted to a
  uniform grid of value \<open>v\<close>. For every height, width and \<open>v\<close>, the method raises
  IndexError on the image with 3 channels, and returns no grid.
\<close>

theorem rgbToGrayScratch_uniform_rgb:
  "rgbToGrayScratch f32 self (ArrayObj 0)
      [\<lparr>shape = [height, width, 3], data = replicate (height * width * 3) v\<rparr>]
     = (Inl IndexError, [\<lparr>shape = [height, width, 3], data = replicate (height * width * 3) v\<rparr>])"
  by (simp add: rgbToGrayScratch_def grayOfArray_def ndim_def channel_def)

text \<open>
  Claim C8. A two-dimensional array is passed through: the method returns a new array
  of the same shape whose elements are the input's elements cast to float32, and the
  input array is left as it was.
\<close>

theorem rgbToGrayScratch_2d_passthrough:
  assumes "img < length h" "ndim (h ! img) = 2"
  shows "\<exists>res h'. rgbToGrayScratch f32 self (ArrayObj img) h = (Inr res, h')
           \<and> res < length h' \<and> h' ! img = h ! img
           \<and> shape (h' ! res) = shape (h ! img)
           \<and> data (h' ! res) = map f32 (data (h ! img))"
  using assms by (simp add: rgbToGrayScratch_def grayOfArray_2d nth_append)

theorem rgbToGrayScratch_2d_passthrough_witness:
  "(0::nat) < length [\<lparr>shape = [1, 2], data = [7, 9]\<rparr>]
   \<and> ndim ([\<lparr>shape = [1, 2], data = [7, 9]\<rparr>] ! 0) = 2
   \<and> (\<exists>res h'. rgbToGrayScratch (\<lambda>v. v) \<lparr>gradThresh = 0, firstThresh = 0, secondThresh = 0\<rparr>
                   (ArrayObj 0) [\<lparr>shape = [1, 2], data = [7, 9]\<rparr>] = (Inr res, h')
        \<and> res < length h' \<and> h' ! 0 = \<lparr>shape = [1, 2], data = [7, 9]\<rparr>
        \<and> shape (h' ! res) = [1, 2] \<and> data (h' ! res) = [7, 9])"
  using rgbToGrayScratch_2d_passthrough[of 0 "[\<lparr>shape = [1, 2], data = [7, 9]\<rparr>]" "\<lambda>v. v"
      "\<lparr>gradThresh = 0, firstThresh = 0, secondThresh = 0\<rparr>"]
  by (simp add: ndim_def)

section \<open>Properties of the smoothing stage\<close>

lemma applyGaussianBlurScratch_2d:
  "ndim (h ! img) = 2 \<Longrightarrow> applyGaussianBlurScratch self img sigma h = createGaussianKernel sigma h"
  by (simp add: applyGaussianBlurScratch_def)

text \<open>
  Claim C2. The claim is that the method returns a grid of the shape of its input. The
  method returns the kernel: on a 1 by 1 grid with \<open>sigma = 1\<close> the array returned has
  shape 3 by 3.
\<close>

theorem applyGaussianBlurScratch_returns_kernel:
  "fst (applyGaussianBlurScratch self 0 1 [\<lparr>shape = [1, 1], data = [5]\<rparr>]) = Inr 1
   \<and> shape (snd (applyGaussianBlurScratch self 0 1 [\<lparr>shape = [1, 1], data = [5]\<rparr>]) ! 1) = [3, 3]
   \<and> shape ([\<lparr>shape = [1, 1], data = [5]\<rparr>] ! 0) = [1, 1]"
proof -
  have k: "kernelSide 1 = 3" by (simp add: kernelSide_def)
  show ?thesis
    using createGaussianKernel_ok[of 1 "[\<lparr>shape = [1, 1], data = [5]\<rparr>]"]
    by (simp add: applyGaussianBlurScratch_2d ndim_def k)
qed

text \<open>
  Claim C10. On an input whose number of dimensions is not 2 the method raises its own
  ValueError, whatever \<open>sigma\<close> is, and returns the heap it was given: no kernel has been
  allocated and the input array is untouched.
\<close>

theorem applyGaussianBlurScratch_not2d:
  assumes "ndim (h ! img) \<noteq> 2"
  shows "applyGaussianBlurScratch self img sigma h =
           (Inl (ValueError ''Input image must be a grayscale image. Nothing else.''), h)"
  using assms by (simp add: applyGaussianBlurScratch_def)

theorem applyGaussianBlurScratch_not2d_witness:
  "ndim ([\<lparr>shape = [1, 1, 3], data = [10, 20, 30]\<rparr>] ! 0) \<noteq> 2 \<and>
   applyGaussianBlurScratch \<lparr>gradThresh = 0, firstThresh = 0, secondThresh = 0\<rparr> 0 0
        [\<lparr>shape = [1, 1, 3], data = [10, 20, 30]\<rparr>]
     = (Inl (ValueError ''Input image must be a grayscale image. Nothing else.''),
        [\<lparr>shape = [1, 1, 3], data = [10, 20, 30]\<rparr>])"
  using applyGaussianBlurScratch_not2d[of "[\<lparr>shape = [1, 1, 3], data = [10, 20, 30]\<rparr>]" 0
      "\<lparr>gradThresh = 0, firstThresh = 0, secondThresh = 0\<rparr>" 0]
  by (simp add: ndim_def)

end
